theory Spec2Isabelle
  imports Complex_Main
begin

section \<open>Numbers\<close>

text \<open>
  A JavaScript number is modelled as a real number or one of the three special values
  that the arithmetic of the engine can produce by dividing by zero: the two infinities
  and NaN. Finite arithmetic is exact (no rounding, no overflow) and there is a single
  zero, which behaves as the positive zero when it is a divisor: the divisors of the
  engine (a squared radius, a sum of masses started at \<open>0\<close>) are never the negative zero.
  Rounding to double precision is a function of its own, \<open>rounded\<close> below: an operation
  of the source on doubles is the exact operation followed by \<open>rounded\<close>, and the model
  of the centre of mass on doubles, \<open>centerOfMass_double\<close>, applies it after every
  operation.
\<close>

datatype number = Fin real | PInf | NInf | NaN

instantiation number :: "{zero, one, plus, uminus, minus, times, inverse}"
begin

definition zero_number :: number where
  "zero_number = Fin 0"

definition one_number :: number where
  "one_number = Fin 1"

fun plus_number :: "number \<Rightarrow> number \<Rightarrow> number" where
  "plus_number NaN _ = NaN"
| "plus_number _ NaN = NaN"
| "plus_number (Fin a) (Fin b) = Fin (a + b)"
| "plus_number PInf NInf = NaN"
| "plus_number NInf PInf = NaN"
| "plus_number PInf _ = PInf"
| "plus_number NInf _ = NInf"
| "plus_number (Fin a) b = b"

fun uminus_number :: "number \<Rightarrow> number" where
  "uminus_number (Fin a) = Fin (- a)"
| "uminus_number PInf = NInf"
| "uminus_number NInf = PInf"
| "uminus_number NaN = NaN"

definition minus_number :: "number \<Rightarrow> number \<Rightarrow> number" where
  "minus_number a b = a + (- b)"

fun times_number :: "number \<Rightarrow> number \<Rightarrow> number" where
  "times_number NaN _ = NaN"
| "times_number _ NaN = NaN"
| "times_number (Fin a) (Fin b) = Fin (a * b)"
| "times_number (Fin a) PInf = (if a = 0 then NaN else if 0 < a then PInf else NInf)"
| "times_number (Fin a) NInf = (if a = 0 then NaN else if 0 < a then NInf else PInf)"
| "times_number PInf (Fin b) = (if b = 0 then NaN else if 0 < b then PInf else NInf)"
| "times_number NInf (Fin b) = (if b = 0 then NaN else if 0 < b then NInf else PInf)"
| "times_number PInf PInf = PInf"
| "times_number PInf NInf = NInf"
| "times_number NInf PInf = NInf"
| "times_number NInf NInf = PInf"

fun divide_number :: "number \<Rightarrow> number \<Rightarrow> number" where
  "divide_number NaN _ = NaN"
| "divide_number _ NaN = NaN"
| "divide_number (Fin a) (Fin b) =
     (if b = 0 then (if a = 0 then NaN else if 0 < a then PInf else NInf)
      else Fin (a / b))"
| "divide_number (Fin a) _ = Fin 0"
| "divide_number PInf (Fin b) = (if 0 \<le> b then PInf else NInf)"
| "divide_number NInf (Fin b) = (if 0 \<le> b then NInf else PInf)"
| "divide_number _ _ = NaN"

definition inverse_number :: "number \<Rightarrow> number" where
  "inverse_number a = divide (Fin 1) a"

instance ..

end

text \<open>\<open>Math.sqrt\<close>.\<close>

fun Math_sqrt :: "number \<Rightarrow> number" where
  "Math_sqrt (Fin a) = (if a < 0 then NaN else Fin (sqrt a))"
| "Math_sqrt PInf = PInf"
| "Math_sqrt NInf = NaN"
| "Math_sqrt NaN = NaN"

section \<open>Errors and arrays\<close>

text \<open>
  Every \<open>throw new Error(msg)\<close> of the source is the value \<open>Error msg\<close>. A method that
  can throw returns its outcome together with the state of the receiver after the call.
  The two messages below are the ones that the methods modelled here throw.
\<close>

datatype error = Error string

abbreviation InvalidTrailLength :: error where
  "InvalidTrailLength \<equiv> Error ''Invalid trail length''"

abbreviation BodyCountLimitReached :: error where
  "BodyCountLimitReached \<equiv> Error ''Body count limit reached.''"

text \<open>
  \<open>Array.prototype.splice(start, deleteCount)\<close> on integer arguments: a negative start
  counts from the end, both arguments are clamped to the array. The result is the pair of
  the removed elements (the return value) and the array left behind.
\<close>

definition array_splice :: "int \<Rightarrow> int \<Rightarrow> 'a list \<Rightarrow> 'a list \<times> 'a list" where
  "array_splice start deleteCount xs =
     (let len = int (length xs);
          actualStart = (if start < 0 then max (len + start) 0 else min start len);
          actualDeleteCount = min (max deleteCount 0) (len - actualStart)
      in (take (nat actualDeleteCount) (drop (nat actualStart) xs),
          take (nat actualStart) xs @ drop (nat (actualStart + actualDeleteCount)) xs))"

section \<open>Position and MotionVector\<close>

record Position =
  pos_x :: number
  pos_y :: number

record MotionVector =
  vec_x :: number
  vec_y :: number

definition addVector :: "MotionVector \<Rightarrow> Position \<Rightarrow> Position" where
  "addVector vector this =
     this\<lparr>pos_x := pos_x this + vec_x vector, pos_y := pos_y this + vec_y vector\<rparr>"

definition difference :: "Position \<Rightarrow> Position \<Rightarrow> Position" where
  "difference this position =
     \<lparr>pos_x = pos_x position - pos_x this, pos_y = pos_y position - pos_y this\<rparr>"

definition distance :: "Position \<Rightarrow> Position \<Rightarrow> number" where
  "distance this position =
     (let p = difference this position
      in Math_sqrt ((pos_x p * pos_x p) + (pos_y p * pos_y p)))"

definition exportCoordinates :: "Position \<Rightarrow> number \<times> number" where
  "exportCoordinates this = (pos_x this, pos_y this)"

definition addCoords :: "number \<Rightarrow> number \<Rightarrow> MotionVector \<Rightarrow> MotionVector" where
  "addCoords dx dy this = this\<lparr>vec_x := vec_x this + dx, vec_y := vec_y this + dy\<rparr>"

section \<open>Body\<close>

text \<open>
  \<open>trailLength\<close> is the number of previous positions to keep, an integer. The trail is
  the array of exported coordinates, oldest first.
\<close>

record Body =
  mass :: number
  position :: Position
  momentum :: MotionVector
  trailLength :: int
  trail :: "(number \<times> number) list"
  colorIndex :: int
  trailThickness :: number

definition colorOptions :: "string list" where
  "colorOptions =
     [''#ffffff'', ''#f44336'', ''#E91E63'', ''#9C27B0'', ''#673AB7'', ''#3F51B5'',
      ''#2196F3'', ''#00BCD4'', ''#009688'', ''#4CAF50'', ''#CDDC39'', ''#FFEB3B'',
      ''#FFC107'', ''#FF9800'', ''#FF5722'']"

text \<open>The argument \<open>r\<close> is the value that \<open>Math.random()\<close> returns, in \<open>[0, 1)\<close>.\<close>

definition setRandomColor :: "real \<Rightarrow> Body \<Rightarrow> Body" where
  "setRandomColor r this = this\<lparr>colorIndex := \<lfloor>r * real (length colorOptions)\<rfloor>\<rparr>"

definition new_Body :: "real \<Rightarrow> number \<Rightarrow> Position \<Rightarrow> MotionVector \<Rightarrow> Body" where
  "new_Body r m p v =
     setRandomColor r
       \<lparr>mass = m, position = p, momentum = v, trailLength = 0, trail = [],
        colorIndex = 0, trailThickness = Fin 2\<rparr>"

definition body_x :: "Body \<Rightarrow> number" where
  "body_x this = pos_x (position this)"

definition body_y :: "Body \<Rightarrow> number" where
  "body_y this = pos_y (position this)"

definition setTrailLength :: "int \<Rightarrow> Body \<Rightarrow> (error + unit) \<times> Body" where
  "setTrailLength n this =
     (if n < 0 \<or> n > 100000 then (Inl InvalidTrailLength, this)
      else (Inr (), this\<lparr>trailLength := n\<rparr>))"

definition gravCoeff :: "Body \<Rightarrow> Body \<Rightarrow> number" where
  "gravCoeff this body =
     (let radius = distance (position this) (position body)
      in (mass this * mass body) / (radius * radius) * Fin 0.5)"

definition adjustVector :: "Body \<Rightarrow> Body \<Rightarrow> Body" where
  "adjustVector this body =
     (let c = gravCoeff this body;
          posDiff = difference (position this) (position body)
      in this\<lparr>momentum := addCoords (c * pos_x posDiff) (c * pos_y posDiff) (momentum this)\<rparr>)"

definition adjustPosition :: "Body \<Rightarrow> Body" where
  "adjustPosition this =
     (let pushed =
            (if trailLength this \<noteq> 0 \<and> trailLength this \<ge> int (length (trail this))
             then trail this @ [exportCoordinates (position this)]
             else trail this);
          spliced =
            (if int (length pushed) > trailLength this
             then snd (array_splice 0 (int (length pushed) - trailLength this) pushed)
             else pushed)
      in this\<lparr>trail := spliced, position := addVector (momentum this) (position this)\<rparr>)"

section \<open>BodyCollection\<close>

record BodyCollection =
  bodies :: "Body list"

definition MAX_BODIES :: nat where
  "MAX_BODIES = 10"

text \<open>
  The loop of \<open>centerOfMass\<close> carries the three accumulators \<open>xComp\<close>, \<open>yComp\<close> and
  \<open>mass\<close>. The method has no \<open>throw\<close>: its outcome is always a position.
\<close>

fun centerOfMass_loop ::
  "Body list \<Rightarrow> number \<times> number \<times> number \<Rightarrow> number \<times> number \<times> number" where
  "centerOfMass_loop [] acc = acc"
| "centerOfMass_loop (b # bs) (xComp, yComp, m) =
     centerOfMass_loop bs (xComp + (body_x b * mass b), yComp + (body_y b * mass b), m + mass b)"

definition centerOfMass :: "BodyCollection \<Rightarrow> error + Position" where
  "centerOfMass this =
     (case centerOfMass_loop (bodies this) (0, 0, 0) of
        (xComp, yComp, m) \<Rightarrow> Inr \<lparr>pos_x = xComp / m, pos_y = yComp / m\<rparr>)"

definition addBodyCustom ::
  "real \<Rightarrow> number \<Rightarrow> number \<Rightarrow> number \<Rightarrow> number \<Rightarrow> number \<Rightarrow> BodyCollection
     \<Rightarrow> (error + Body) \<times> BodyCollection" where
  "addBodyCustom r m posx posy momx momy this =
     (if length (bodies this) \<ge> MAX_BODIES then (Inl BodyCountLimitReached, this)
      else
        let p = \<lparr>pos_x = posx, pos_y = posy\<rparr>;
            v = \<lparr>vec_x = momx, vec_y = momy\<rparr>;
            b = new_Body r m p v
        in (Inr b, this\<lparr>bodies := bodies this @ [b]\<rparr>))"

definition addBody ::
  "real \<Rightarrow> number \<Rightarrow> number \<Rightarrow> BodyCollection \<Rightarrow> (error + Body) \<times> BodyCollection" where
  "addBody r posx posy this = addBodyCustom r 1 posx posy 0 0 this"

text \<open>
  \<open>removeBody\<close> returns element \<open>0\<close> of what \<open>splice\<close> removed: \<open>undefined\<close> (here \<open>None\<close>)
  when nothing was removed. The method has no \<open>throw\<close>.
\<close>

definition removeBody :: "int \<Rightarrow> BodyCollection \<Rightarrow> (error + Body option) \<times> BodyCollection" where
  "removeBody index this =
     (case array_splice index 1 (bodies this) of
        (removed, rest) \<Rightarrow>
          (Inr (case removed of [] \<Rightarrow> None | b # _ \<Rightarrow> Some b), this\<lparr>bodies := rest\<rparr>))"

text \<open>
  The asynchronous methods of the engine never wait for an outside event: one awaited
  call of \<open>updateSimulation\<close> runs its statements in program order. The loops run over the
  indices of the array; \<open>bodies[i].adjustVector(bodies[j])\<close> replaces element \<open>i\<close>.
\<close>

definition updateVectors_inner :: "nat \<Rightarrow> Body list \<Rightarrow> Body list" where
  "updateVectors_inner i bs =
     fold (\<lambda>j bs. if i = j then bs else bs[i := adjustVector (bs ! i) (bs ! j)])
       [0..<length bs] bs"

definition updateVectors :: "BodyCollection \<Rightarrow> BodyCollection" where
  "updateVectors this =
     this\<lparr>bodies := fold updateVectors_inner [0..<length (bodies this)] (bodies this)\<rparr>"

definition updatePositions :: "BodyCollection \<Rightarrow> BodyCollection" where
  "updatePositions this =
     this\<lparr>bodies :=
       fold (\<lambda>i bs. bs[i := adjustPosition (bs ! i)]) [0..<length (bodies this)] (bodies this)\<rparr>"

definition updateSimulation :: "BodyCollection \<Rightarrow> BodyCollection" where
  "updateSimulation this = updatePositions (updateVectors this)"

text \<open>
  Modelled from the spec: \<open>runSteps(n)\<close> calls \<open>step()\<close>, that is \<open>updateSimulation\<close>,
  exactly \<open>n\<close> times, each call completed before the next one starts. The source has no
  method of that name: \<open>Animator.calculate\<close> starts \<open>speed\<close> calls of
  \<open>updateSimulation\<close> per frame (one call with the default speed), and \<open>loopUpdate(n)\<close>
  of the earlier script calls its synchronous step \<open>n\<close> times.
\<close>

primrec runSteps :: "nat \<Rightarrow> BodyCollection \<Rightarrow> BodyCollection" where
  "runSteps 0 this = this"
| "runSteps (Suc n) this = runSteps n (updateSimulation this)"

section \<open>Double precision\<close>









section \<open>The specification's reading of the displacement step\<close>

text \<open>
  The steps of \<open>advance()\<close> as the specification words them, for comparison with
  \<open>adjustPosition\<close>: the position is appended only while the trail is strictly shorter
  than the capacity.
\<close>

definition advance_spec :: "Body \<Rightarrow> Body" where
  "advance_spec this =
     (let appended =
            (if trailLength this > 0 \<and> int (length (trail this)) < trailLength this
             then trail this @ [exportCoordinates (position this)]
             else trail this);
          trimmed =
            (if int (length appended) > trailLength this
             then drop (nat (int (length appended) - trailLength this)) appended
             else appended)
      in this\<lparr>trail := trimmed, position := addVector (momentum this) (position this)\<rparr>)"

section \<open>Sample bodies and collections\<close>

text \<open>A body whose trail is exactly as long as its capacity.\<close>

definition full_trail_body :: Body where
  "full_trail_body =
     \<lparr>mass = Fin 1, position = \<lparr>pos_x = Fin 1, pos_y = Fin 1\<rparr>,
      momentum = \<lparr>vec_x = Fin 2, vec_y = Fin 3\<rparr>, trailLength = 1,
      trail = [(Fin 0, Fin 0)], colorIndex = 0, trailThickness = Fin 2\<rparr>"

text \<open>A body with three recorded positions.\<close>

definition long_trail_body :: Body where
  "long_trail_body =
     \<lparr>mass = Fin 1, position = \<lparr>pos_x = Fin 5, pos_y = Fin 6\<rparr>,
      momentum = \<lparr>vec_x = Fin 1, vec_y = Fin 0\<rparr>, trailLength = 3,
      trail = [(Fin 0, Fin 0), (Fin 1, Fin 0), (Fin 2, Fin 0)], colorIndex = 4,
      trailThickness = Fin 2\<rparr>"

definition two_bodies :: BodyCollection where
  "two_bodies = \<lparr>bodies = [full_trail_body, long_trail_body]\<rparr>"

definition ten_bodies :: BodyCollection where
  "ten_bodies = \<lparr>bodies = replicate 10 full_trail_body\<rparr>"

text \<open>
  The body \<open>b\<close> given mass 1 and the position \<open>(px, py)\<close>; \<open>resting\<close> also puts it at
  rest and sets its trail capacity to 0. The other fields stay as they are.
\<close>

definition placed :: "real \<Rightarrow> real \<Rightarrow> Body \<Rightarrow> Body" where
  "placed px py b = b\<lparr>mass := Fin 1, position := \<lparr>pos_x = Fin px, pos_y = Fin py\<rparr>\<rparr>"

definition resting :: "real \<Rightarrow> real \<Rightarrow> Body \<Rightarrow> Body" where
  "resting px py b =
     (placed px py b)\<lparr>momentum := \<lparr>vec_x = Fin 0, vec_y = Fin 0\<rparr>, trailLength := 0\<rparr>"



text \<open>The sample collection with other colours and another trail thickness.\<close>

definition two_bodies_recoloured :: BodyCollection where
  "two_bodies_recoloured =
     \<lparr>bodies = map (\<lambda>b. b\<lparr>colorIndex := 9, trailThickness := Fin 1\<rparr>) (bodies two_bodies)\<rparr>"

section \<open>Properties of bodies\<close>

text \<open>The trail bound: the trail has at most \<open>trailLength\<close> entries.\<close>

definition trail_within_capacity :: "Body \<Rightarrow> bool" where
  "trail_within_capacity b = (int (length (trail b)) \<le> trailLength b)"

text \<open>
  The fields that the simulation reads and writes: everything except the colour index
  and the trail thickness.
\<close>

definition physics ::
  "Body \<Rightarrow> number \<times> Position \<times> MotionVector \<times> int \<times> (number \<times> number) list" where
  "physics b = (mass b, position b, momentum b, trailLength b, trail b)"

text \<open>
  The accumulation phase for body \<open>i\<close>, taken on its own: the body adjusts its vector by
  every other body of the array \<open>bs\<close> in index order, each of them read from \<open>bs\<close>
  itself, the array as it is before the step.
\<close>

definition accumulate :: "Body list \<Rightarrow> nat \<Rightarrow> Body" where
  "accumulate bs i =
     fold (\<lambda>j this. adjustVector this (bs ! j)) (filter (\<lambda>j. j \<noteq> i) [0..<length bs]) (bs ! i)"

section \<open>Auxiliary facts\<close>

lemma snd_array_splice_head: "snd (array_splice 0 k xs) = drop (nat k) xs"
  by (auto simp add: array_splice_def Let_def min_def max_def)

lemma adjustPosition_trail:
  "trail (adjustPosition b) =
     (let pushed =
            (if trailLength b \<noteq> 0 \<and> int (length (trail b)) \<le> trailLength b
             then trail b @ [exportCoordinates (position b)] else trail b)
      in drop (nat (int (length pushed) - trailLength b)) pushed)"
  by (simp add: adjustPosition_def Let_def snd_array_splice_head)

lemma adjustPosition_fields:
  "mass (adjustPosition b) = mass b"
  "momentum (adjustPosition b) = momentum b"
  "trailLength (adjustPosition b) = trailLength b"
  "colorIndex (adjustPosition b) = colorIndex b"
  "trailThickness (adjustPosition b) = trailThickness b"
  "position (adjustPosition b) = addVector (momentum b) (position b)"
  by (simp_all add: adjustPosition_def Let_def)

text \<open>Addition of numbers is associative and commutative, and \<open>0\<close> is neutral.\<close>

lemma plus_number_assoc: "(x + y) + z = x + (y + z)" for x y z :: number
  by (cases x; cases y; cases z) simp_all

lemma plus_number_commute: "x + y = y + x" for x y :: number
  by (cases x; cases y) simp_all

lemma plus_number_zero: "0 + x = x" for x :: number
  by (cases x) (simp_all add: zero_number_def)

instance number :: comm_monoid_add
  by standard (fact plus_number_assoc plus_number_commute plus_number_zero)+






text \<open>
  \<open>adjustVector\<close> writes the momentum of its receiver and reads the position and the
  mass of its argument.
\<close>

lemma adjustVector_fields:
  "mass (adjustVector this body) = mass this"
  "position (adjustVector this body) = position this"
  "trailLength (adjustVector this body) = trailLength this"
  "trail (adjustVector this body) = trail this"
  "colorIndex (adjustVector this body) = colorIndex this"
  "trailThickness (adjustVector this body) = trailThickness this"
  by (simp_all add: adjustVector_def Let_def)

lemma adjustVector_reads:
  "position body = position body' \<Longrightarrow> mass body = mass body' \<Longrightarrow>
   adjustVector this body = adjustVector this body'"
  by (simp add: adjustVector_def gravCoeff_def)

lemma fold_adjustVector_frame:
  "\<exists>v. fold (\<lambda>j this. adjustVector this (f j)) js b = b\<lparr>momentum := v\<rparr>"
proof (induction js arbitrary: b)
  case Nil
  show ?case
    by (rule exI [of _ "momentum b"]) simp
next
  case (Cons j js)
  obtain v where "fold (\<lambda>j this. adjustVector this (f j)) js (adjustVector b (f j))
      = (adjustVector b (f j))\<lparr>momentum := v\<rparr>"
    using Cons by blast
  then have "fold (\<lambda>j this. adjustVector this (f j)) (j # js) b = b\<lparr>momentum := v\<rparr>"
    by (simp add: adjustVector_def Let_def)
  then show ?case
    by blast
qed

lemma fold_adjustVector_fields:
  "mass (fold (\<lambda>j this. adjustVector this (f j)) js b) = mass b"
  "position (fold (\<lambda>j this. adjustVector this (f j)) js b) = position b"
  "trailLength (fold (\<lambda>j this. adjustVector this (f j)) js b) = trailLength b"
  "trail (fold (\<lambda>j this. adjustVector this (f j)) js b) = trail b"
  "colorIndex (fold (\<lambda>j this. adjustVector this (f j)) js b) = colorIndex b"
  "trailThickness (fold (\<lambda>j this. adjustVector this (f j)) js b) = trailThickness b"
proof -
  obtain v where "fold (\<lambda>j this. adjustVector this (f j)) js b = b\<lparr>momentum := v\<rparr>"
    using fold_adjustVector_frame by blast
  then show
    "mass (fold (\<lambda>j this. adjustVector this (f j)) js b) = mass b"
    "position (fold (\<lambda>j this. adjustVector this (f j)) js b) = position b"
    "trailLength (fold (\<lambda>j this. adjustVector this (f j)) js b) = trailLength b"
    "trail (fold (\<lambda>j this. adjustVector this (f j)) js b) = trail b"
    "colorIndex (fold (\<lambda>j this. adjustVector this (f j)) js b) = colorIndex b"
    "trailThickness (fold (\<lambda>j this. adjustVector this (f j)) js b) = trailThickness b"
    by simp_all
qed

lemma fold_adjustVector_reads:
  "\<forall>j \<in> set js. position (f j) = position (g j) \<and> mass (f j) = mass (g j) \<Longrightarrow>
   fold (\<lambda>j this. adjustVector this (f j)) js b = fold (\<lambda>j this. adjustVector this (g j)) js b"
proof (induction js arbitrary: b)
  case Nil
  then show ?case by simp
next
  case (Cons j js)
  have "adjustVector b (f j) = adjustVector b (g j)"
    by (rule adjustVector_reads) (use Cons.prems in simp_all)
  moreover have "fold (\<lambda>j this. adjustVector this (f j)) js (adjustVector b (g j))
      = fold (\<lambda>j this. adjustVector this (g j)) js (adjustVector b (g j))"
    by (rule Cons.IH) (use Cons.prems in simp)
  ultimately show ?case
    by simp
qed

text \<open>
  The inner loop for index \<open>i\<close> replaces body \<open>i\<close> by its accumulation; the outer loop
  does so for each index in turn, and the bodies it has already replaced still have the
  positions and masses they started with.
\<close>

lemma inner_loop_general:
  "i < length bs \<Longrightarrow>
   fold (\<lambda>j bs. if i = j then bs else bs[i := adjustVector (bs ! i) (bs ! j)]) js bs
     = bs[i := fold (\<lambda>j this. adjustVector this (bs ! j)) (filter (\<lambda>j. j \<noteq> i) js) (bs ! i)]"
proof (induction js arbitrary: bs)
  case Nil
  then show ?case by simp
next
  case (Cons j js)
  show ?case
  proof (cases "i = j")
    case True
    with Cons show ?thesis by simp
  next
    case False
    let ?F = "\<lambda>j bs. if i = j then bs else bs[i := adjustVector (bs ! i) (bs ! j)]"
    let ?js = "filter (\<lambda>j. j \<noteq> i) js"
    let ?b1 = "adjustVector (bs ! i) (bs ! j)"
    let ?bs1 = "bs[i := ?b1]"
    have len: "i < length ?bs1"
      using Cons.prems by simp
    have same: "fold (\<lambda>j this. adjustVector this (?bs1 ! j)) ?js ?b1
        = fold (\<lambda>j this. adjustVector this (bs ! j)) ?js ?b1"
      by (rule fold_adjustVector_reads) simp
    have "fold ?F (j # js) bs = fold ?F js ?bs1"
      using False by simp
    also have "\<dots> = ?bs1[i := fold (\<lambda>j this. adjustVector this (?bs1 ! j)) ?js (?bs1 ! i)]"
      by (rule Cons.IH [OF len])
    also have "?bs1 ! i = ?b1"
      using Cons.prems by simp
    also have "?bs1[i := fold (\<lambda>j this. adjustVector this (?bs1 ! j)) ?js ?b1]
        = bs[i := fold (\<lambda>j this. adjustVector this (bs ! j)) ?js ?b1]"
      unfolding same by simp
    also have "fold (\<lambda>j this. adjustVector this (bs ! j)) ?js ?b1
        = fold (\<lambda>j this. adjustVector this (bs ! j)) (filter (\<lambda>j. j \<noteq> i) (j # js)) (bs ! i)"
      using False by simp
    finally show ?thesis .
  qed
qed

lemma updateVectors_inner_accumulate:
  "i < length bs \<Longrightarrow> updateVectors_inner i bs = bs[i := accumulate bs i]"
  by (simp add: updateVectors_inner_def accumulate_def inner_loop_general)

lemma accumulate_fields:
  "mass (accumulate bs i) = mass (bs ! i)"
  "position (accumulate bs i) = position (bs ! i)"
  "trailLength (accumulate bs i) = trailLength (bs ! i)"
  "trail (accumulate bs i) = trail (bs ! i)"
  "colorIndex (accumulate bs i) = colorIndex (bs ! i)"
  "trailThickness (accumulate bs i) = trailThickness (bs ! i)"
  by (simp_all add: accumulate_def fold_adjustVector_fields)

lemma accumulate_reads:
  assumes "length bs' = length bs" and "bs' ! i = bs ! i"
    and "\<forall>j < length bs. position (bs' ! j) = position (bs ! j) \<and> mass (bs' ! j) = mass (bs ! j)"
  shows "accumulate bs' i = accumulate bs i"
proof -
  have "fold (\<lambda>j this. adjustVector this (bs' ! j)) (filter (\<lambda>j. j \<noteq> i) [0..<length bs]) (bs ! i)
      = fold (\<lambda>j this. adjustVector this (bs ! j)) (filter (\<lambda>j. j \<noteq> i) [0..<length bs]) (bs ! i)"
    by (rule fold_adjustVector_reads) (use assms in simp)
  then show ?thesis
    using assms by (simp add: accumulate_def)
qed

lemma outer_loop_general:
  "distinct is \<Longrightarrow> \<forall>i \<in> set is. i < length bs \<Longrightarrow>
   fold updateVectors_inner is bs
     = map (\<lambda>k. if k \<in> set is then accumulate bs k else bs ! k) [0..<length bs]"
proof (induction "is" rule: rev_induct)
  case Nil
  then show ?case by (simp add: map_nth)
next
  case (snoc i "is")
  let ?S = "map (\<lambda>k. if k \<in> set is then accumulate bs k else bs ! k) [0..<length bs]"
  have S: "fold updateVectors_inner is bs = ?S"
    using snoc by simp
  have i: "i < length bs" "i \<notin> set is"
    using snoc.prems by simp_all
  have "accumulate ?S i = accumulate bs i"
    by (rule accumulate_reads) (use i in \<open>simp_all add: accumulate_fields\<close>)
  then have "updateVectors_inner i ?S = ?S[i := accumulate bs i]"
    using i by (simp add: updateVectors_inner_accumulate)
  also have "\<dots> = map (\<lambda>k. if k \<in> set (is @ [i]) then accumulate bs k else bs ! k) [0..<length bs]"
    using i by (intro nth_equalityI) (simp_all add: nth_list_update)
  finally show ?case
    using S by simp
qed

lemma bodies_updateVectors:
  "bodies (updateVectors c) = map (accumulate (bodies c)) [0..<length (bodies c)]"
  by (simp add: updateVectors_def outer_loop_general)

lemma positions_updateVectors:
  "map position (bodies (updateVectors c)) = map position (bodies c)"
  by (intro nth_equalityI) (simp_all add: bodies_updateVectors accumulate_fields)

text \<open>The displacement loop applies \<open>adjustPosition\<close> to every body.\<close>

lemma positions_loop_general:
  "distinct is \<Longrightarrow> \<forall>i \<in> set is. i < length bs \<Longrightarrow>
   fold (\<lambda>i bs. bs[i := adjustPosition (bs ! i)]) is bs
     = map (\<lambda>k. if k \<in> set is then adjustPosition (bs ! k) else bs ! k) [0..<length bs]"
proof (induction "is" rule: rev_induct)
  case Nil
  then show ?case by (simp add: map_nth)
next
  case (snoc i "is")
  let ?S = "map (\<lambda>k. if k \<in> set is then adjustPosition (bs ! k) else bs ! k) [0..<length bs]"
  have S: "fold (\<lambda>i bs. bs[i := adjustPosition (bs ! i)]) is bs = ?S"
    using snoc by simp
  have i: "i < length bs" "i \<notin> set is"
    using snoc.prems by simp_all
  have "?S[i := adjustPosition (?S ! i)]
      = map (\<lambda>k. if k \<in> set (is @ [i]) then adjustPosition (bs ! k) else bs ! k) [0..<length bs]"
    using i by (intro nth_equalityI) (simp_all add: nth_list_update)
  then show ?case
    using S by simp
qed

lemma bodies_updatePositions:
  "bodies (updatePositions c) = map adjustPosition (bodies c)"
proof -
  have "map (\<lambda>k. if k \<in> set [0..<length bs] then adjustPosition (bs ! k) else bs ! k)
          [0..<length bs] = map adjustPosition bs" for bs
    by (intro nth_equalityI) simp_all
  then show ?thesis
    by (simp add: updatePositions_def positions_loop_general)
qed

lemma bodies_updateSimulation:
  "bodies (updateSimulation c)
     = map (\<lambda>i. adjustPosition (accumulate (bodies c) i)) [0..<length (bodies c)]"
  by (simp add: updateSimulation_def bodies_updatePositions bodies_updateVectors)

lemma length_updateSimulation: "length (bodies (updateSimulation c)) = length (bodies c)"
  by (simp add: bodies_updateSimulation)

lemma nth_updateSimulation:
  "i < length (bodies c) \<Longrightarrow>
   bodies (updateSimulation c) ! i = adjustPosition (accumulate (bodies c) i)"
  by (simp add: bodies_updateSimulation)

lemma length_runSteps: "length (bodies (runSteps n c)) = length (bodies c)"
  by (induction n arbitrary: c) (simp_all add: length_updateSimulation)

lemma nth_runSteps_Suc:
  "runSteps (Suc n) c = updateSimulation (runSteps n c)"
proof (induction n arbitrary: c)
  case 0
  show ?case by simp
next
  case (Suc n)
  have "runSteps (Suc (Suc n)) c = runSteps (Suc n) (updateSimulation c)"
    by simp
  also have "\<dots> = updateSimulation (runSteps n (updateSimulation c))"
    by (rule Suc.IH)
  also have "runSteps n (updateSimulation c) = runSteps (Suc n) c"
    by simp
  finally show ?case .
qed

lemma trailLength_updateSimulation:
  "i < length (bodies c) \<Longrightarrow>
   trailLength (bodies (updateSimulation c) ! i) = trailLength (bodies c ! i)"
  by (simp add: nth_updateSimulation adjustPosition_fields accumulate_fields)

lemma trailLength_runSteps:
  "i < length (bodies c) \<Longrightarrow>
   trailLength (bodies (runSteps n c) ! i) = trailLength (bodies c ! i)"
proof (induction n)
  case 0
  then show ?case by simp
next
  case (Suc n)
  then show ?case
    unfolding nth_runSteps_Suc
    by (simp add: trailLength_updateSimulation length_runSteps)
qed

lemma adjustPosition_within_capacity:
  "trail_within_capacity b \<Longrightarrow> trail_within_capacity (adjustPosition b)"
  by (auto simp add: trail_within_capacity_def adjustPosition_trail adjustPosition_fields Let_def)

lemma updateSimulation_within_capacity:
  "i < length (bodies c) \<Longrightarrow> trail_within_capacity (bodies c ! i) \<Longrightarrow>
   trail_within_capacity (bodies (updateSimulation c) ! i)"
proof -
  assume i: "i < length (bodies c)" and ok: "trail_within_capacity (bodies c ! i)"
  have "trail_within_capacity (accumulate (bodies c) i)"
    using ok by (simp add: trail_within_capacity_def accumulate_fields)
  then show ?thesis
    using i by (simp add: nth_updateSimulation adjustPosition_within_capacity)
qed

lemma adjustPosition_physics:
  "physics b = physics b' \<Longrightarrow> physics (adjustPosition b) = physics (adjustPosition b')"
  by (simp add: physics_def adjustPosition_trail adjustPosition_fields)

lemma adjustVector_physics:
  "physics this = physics this' \<Longrightarrow> physics body = physics body' \<Longrightarrow>
   physics (adjustVector this body) = physics (adjustVector this' body')"
  by (simp add: physics_def adjustVector_def gravCoeff_def Let_def)

lemma fold_adjustVector_physics:
  "physics b = physics b' \<Longrightarrow> \<forall>j \<in> set js. physics (f j) = physics (g j) \<Longrightarrow>
   physics (fold (\<lambda>j this. adjustVector this (f j)) js b)
     = physics (fold (\<lambda>j this. adjustVector this (g j)) js b')"
proof (induction js arbitrary: b b')
  case Nil
  then show ?case by simp
next
  case (Cons j js)
  have "physics (adjustVector b (f j)) = physics (adjustVector b' (g j))"
    by (rule adjustVector_physics) (use Cons.prems in simp_all)
  then have "physics (fold (\<lambda>j this. adjustVector this (f j)) js (adjustVector b (f j)))
      = physics (fold (\<lambda>j this. adjustVector this (g j)) js (adjustVector b' (g j)))"
    by (rule Cons.IH) (use Cons.prems in simp)
  then show ?case
    by simp
qed

lemma accumulate_physics:
  assumes "map physics bs = map physics bs'" and "i < length bs"
  shows "physics (accumulate bs i) = physics (accumulate bs' i)"
proof -
  have len: "length bs' = length bs"
    using assms(1) by (metis length_map)
  have nth: "physics (bs ! j) = physics (bs' ! j)" if "j < length bs" for j
    using that assms(1) len by (metis nth_map)
  have "physics (fold (\<lambda>j this. adjustVector this (bs ! j))
            (filter (\<lambda>j. j \<noteq> i) [0..<length bs]) (bs ! i))
      = physics (fold (\<lambda>j this. adjustVector this (bs' ! j))
            (filter (\<lambda>j. j \<noteq> i) [0..<length bs]) (bs' ! i))"
    by (rule fold_adjustVector_physics) (use assms(2) nth in simp_all)
  then show ?thesis
    by (simp add: accumulate_def len)
qed

lemma updateSimulation_physics:
  assumes "map physics (bodies c) = map physics (bodies c')"
  shows "map physics (bodies (updateSimulation c)) = map physics (bodies (updateSimulation c'))"
proof -
  have len: "length (bodies c') = length (bodies c)"
    using assms by (metis length_map)
  have "physics (adjustPosition (accumulate (bodies c) i))
      = physics (adjustPosition (accumulate (bodies c') i))" if "i < length (bodies c)" for i
    using that assms by (intro adjustPosition_physics accumulate_physics)
  then show ?thesis
    by (simp add: bodies_updateSimulation len)
qed

section \<open>Adding and removing bodies\<close>

text \<open>
  Claim C2. A collection that holds 10 bodies rejects \<open>addBodyCustom\<close> and \<open>addBody\<close>
  with the error "Body count limit reached." and stays as it was; a collection that
  holds fewer than 10 bodies gets the newly constructed body appended at the end, and the
  call returns that body.
\<close>

theorem addBody_capacity:
  "(length (bodies c) = 10 \<longrightarrow>
      addBodyCustom r m posx posy momx momy c = (Inl BodyCountLimitReached, c)
      \<and> addBody r posx posy c = (Inl BodyCountLimitReached, c))
   \<and> (length (bodies c) < 10 \<longrightarrow>
      addBodyCustom r m posx posy momx momy c =
        (Inr (new_Body r m \<lparr>pos_x = posx, pos_y = posy\<rparr> \<lparr>vec_x = momx, vec_y = momy\<rparr>),
         c\<lparr>bodies := bodies c
              @ [new_Body r m \<lparr>pos_x = posx, pos_y = posy\<rparr> \<lparr>vec_x = momx, vec_y = momy\<rparr>]\<rparr>)
      \<and> addBody r posx posy c =
        (Inr (new_Body r 1 \<lparr>pos_x = posx, pos_y = posy\<rparr> \<lparr>vec_x = 0, vec_y = 0\<rparr>),
         c\<lparr>bodies := bodies c
              @ [new_Body r 1 \<lparr>pos_x = posx, pos_y = posy\<rparr> \<lparr>vec_x = 0, vec_y = 0\<rparr>]\<rparr>))"
  by (simp add: addBody_def addBodyCustom_def MAX_BODIES_def Let_def)

text \<open>The eleventh body is refused, the third one is accepted.\<close>

theorem addBody_capacity_witness:
  "addBody 0 (Fin 3) (Fin 4) ten_bodies = (Inl BodyCountLimitReached, ten_bodies)
   \<and> length (bodies (snd (addBody 0 (Fin 3) (Fin 4) ten_bodies))) = 10
   \<and> fst (addBody 0 (Fin 3) (Fin 4) two_bodies)
       = Inr (new_Body 0 1 \<lparr>pos_x = Fin 3, pos_y = Fin 4\<rparr> \<lparr>vec_x = 0, vec_y = 0\<rparr>)
   \<and> length (bodies (snd (addBody 0 (Fin 3) (Fin 4) two_bodies))) = 3"
proof -
  have full: "length (bodies ten_bodies) = 10"
    by (simp add: ten_bodies_def)
  have room: "length (bodies two_bodies) < 10"
    by (simp add: two_bodies_def)
  from full room
    addBody_capacity [of ten_bodies 0 1 "Fin 3" "Fin 4" 0 0]
    addBody_capacity [of two_bodies 0 1 "Fin 3" "Fin 4" 0 0]
  show ?thesis
    by (simp add: two_bodies_def)
qed

text \<open>
  Claim C7, as amended. \<open>removeBody\<close> never throws. With a valid index it removes the
  body at that index and returns it; with an index at or beyond the number of bodies it
  returns \<open>undefined\<close> and leaves the collection unchanged; a negative index counts
  from the end of the array, as \<open>splice\<close> does, and stops at the first body.
\<close>

theorem removeBody_cases:
  "(0 \<le> i \<and> i < int (length (bodies c)) \<longrightarrow>
      removeBody i c =
        (Inr (Some (bodies c ! nat i)),
         c\<lparr>bodies := take (nat i) (bodies c) @ drop (Suc (nat i)) (bodies c)\<rparr>))
   \<and> (int (length (bodies c)) \<le> i \<longrightarrow> removeBody i c = (Inr None, c))
   \<and> (i < 0 \<longrightarrow> removeBody i c = removeBody (max (int (length (bodies c)) + i) 0) c)"
proof -
  have valid: "removeBody i c =
        (Inr (Some (bodies c ! nat i)),
         c\<lparr>bodies := take (nat i) (bodies c) @ drop (Suc (nat i)) (bodies c)\<rparr>)"
    if "0 \<le> i" "i < int (length (bodies c))"
  proof -
    have "nat i < length (bodies c)"
      using that by linarith
    then have "take (Suc 0) (drop (nat i) (bodies c)) = [bodies c ! nat i]"
      by (simp add: take_Suc_conv_app_nth Cons_nth_drop_Suc [symmetric])
    moreover have "nat (i + 1) = Suc (nat i)"
      using that by linarith
    ultimately show ?thesis
      using that by (simp add: removeBody_def array_splice_def Let_def min_def max_def)
  qed
  have beyond: "removeBody i c = (Inr None, c)" if "int (length (bodies c)) \<le> i"
    using that by (simp add: removeBody_def array_splice_def Let_def min_def max_def)
  have negative: "removeBody i c = removeBody (max (int (length (bodies c)) + i) 0) c" if "i < 0"
    using that
    by (cases "bodies c") (simp_all add: removeBody_def array_splice_def Let_def min_def max_def)
  from valid beyond negative show ?thesis
    by blast
qed

theorem removeBody_cases_witness:
  "removeBody 1 two_bodies = (Inr (Some long_trail_body), \<lparr>bodies = [full_trail_body]\<rparr>)
   \<and> removeBody 2 two_bodies = (Inr None, two_bodies)
   \<and> removeBody (- 2) two_bodies = removeBody 0 two_bodies"
proof -
  have valid: "(0::int) \<le> 1 \<and> 1 < int (length (bodies two_bodies))"
    by (simp add: two_bodies_def)
  have beyond: "int (length (bodies two_bodies)) \<le> 2"
    by (simp add: two_bodies_def)
  have negative: "(- 2 :: int) < 0"
    by simp
  have a: "removeBody 1 two_bodies =
        (Inr (Some (bodies two_bodies ! nat 1)),
         two_bodies\<lparr>bodies := take (nat 1) (bodies two_bodies) @ drop (Suc (nat 1)) (bodies two_bodies)\<rparr>)"
    using removeBody_cases [of 1 two_bodies] valid by blast
  have b: "removeBody 2 two_bodies = (Inr None, two_bodies)"
    using removeBody_cases [of 2 two_bodies] beyond by blast
  have c: "removeBody (- 2) two_bodies = removeBody (max (int (length (bodies two_bodies)) + (- 2)) 0) two_bodies"
    using removeBody_cases [of "- 2" two_bodies] negative by blast
  from a b c show ?thesis
    by (simp add: two_bodies_def)
qed

text \<open>
  Index 5 is not valid in a collection of two bodies, and the call is not an error: it
  returns \<open>undefined\<close>.
\<close>

theorem removeBody_counterexample:
  "removeBody 5 two_bodies = (Inr None, two_bodies)"
  by (simp add: removeBody_def array_splice_def Let_def two_bodies_def)

section \<open>Centre of mass\<close>

text \<open>
  Claim C5, as amended. On a collection without bodies \<open>centerOfMass\<close> does not throw:
  both sums and the total mass are \<open>0\<close>, and the result is the position whose coordinates
  are both \<open>0 / 0\<close>, that is NaN.
\<close>

theorem centerOfMass_empty:
  "bodies c = [] \<Longrightarrow> centerOfMass c = Inr \<lparr>pos_x = NaN, pos_y = NaN\<rparr>"
  by (simp add: centerOfMass_def zero_number_def)

theorem centerOfMass_empty_witness:
  "bodies \<lparr>bodies = []\<rparr> = [] \<and> \<not> isl (centerOfMass \<lparr>bodies = []\<rparr>)
   \<and> projr (centerOfMass \<lparr>bodies = []\<rparr>) = \<lparr>pos_x = NaN, pos_y = NaN\<rparr>"
proof -
  have none: "bodies \<lparr>bodies = []\<rparr> = []"
    by simp
  from centerOfMass_empty [OF none] none show ?thesis
    by simp
qed

text \<open>The call on the empty collection returns a position, not an error.\<close>

theorem centerOfMass_empty_counterexample:
  "centerOfMass \<lparr>bodies = []\<rparr> = Inr \<lparr>pos_x = NaN, pos_y = NaN\<rparr>"
  by (simp add: centerOfMass_def zero_number_def)




section \<open>Trail capacity\<close>

text \<open>
  Claim C8. \<open>setTrailLength n\<close> throws "Invalid trail length" exactly when \<open>n < 0\<close> or
  \<open>n > 100000\<close>, and then the body is unchanged; otherwise it succeeds and the capacity
  is \<open>n\<close>. So \<open>-1\<close> and \<open>100001\<close> are rejected, \<open>0\<close> and \<open>100000\<close> are accepted.
\<close>

theorem setTrailLength_validation:
  "(fst (setTrailLength n b) = Inl InvalidTrailLength \<longleftrightarrow> n < 0 \<or> n > 100000)
   \<and> (fst (setTrailLength n b) = Inr () \<longleftrightarrow> \<not> (n < 0 \<or> n > 100000))
   \<and> (n < 0 \<or> n > 100000 \<longrightarrow> snd (setTrailLength n b) = b)
   \<and> (\<not> (n < 0 \<or> n > 100000) \<longrightarrow> snd (setTrailLength n b) = b\<lparr>trailLength := n\<rparr>)
   \<and> setTrailLength (- 1) b = (Inl InvalidTrailLength, b)
   \<and> setTrailLength 100001 b = (Inl InvalidTrailLength, b)
   \<and> setTrailLength 0 b = (Inr (), b\<lparr>trailLength := 0\<rparr>)
   \<and> setTrailLength 100000 b = (Inr (), b\<lparr>trailLength := 100000\<rparr>)"
  by (simp add: setTrailLength_def)

theorem setTrailLength_validation_witness:
  "setTrailLength 100001 long_trail_body = (Inl InvalidTrailLength, long_trail_body)
   \<and> snd (setTrailLength (- 7) long_trail_body) = long_trail_body
   \<and> trailLength (snd (setTrailLength 5 long_trail_body)) = 5"
  using setTrailLength_validation [of 100001 long_trail_body]
    setTrailLength_validation [of "- 7" long_trail_body]
    setTrailLength_validation [of 5 long_trail_body]
  by simp

text \<open>
  Claim C10. A successful \<open>setTrailLength n\<close> changes the field \<open>trailLength\<close> and
  nothing else; the trail keeps its entries. When \<open>n\<close> is below the length of the trail,
  the trail is longer than the new capacity after the call, and the next
  \<open>adjustPosition\<close> cuts it from the head down to its last \<open>n\<close> entries.
\<close>

theorem setTrailLength_frame:
  assumes "0 \<le> n" and "n \<le> 100000"
  shows "setTrailLength n b = (Inr (), b\<lparr>trailLength := n\<rparr>)
    \<and> trail (snd (setTrailLength n b)) = trail b
    \<and> mass (snd (setTrailLength n b)) = mass b
    \<and> position (snd (setTrailLength n b)) = position b
    \<and> momentum (snd (setTrailLength n b)) = momentum b
    \<and> colorIndex (snd (setTrailLength n b)) = colorIndex b
    \<and> trailThickness (snd (setTrailLength n b)) = trailThickness b
    \<and> (n < int (length (trail b)) \<longrightarrow>
          int (length (trail (snd (setTrailLength n b)))) > trailLength (snd (setTrailLength n b))
        \<and> trail (adjustPosition (snd (setTrailLength n b))) = drop (length (trail b) - nat n) (trail b)
        \<and> int (length (trail (adjustPosition (snd (setTrailLength n b))))) = n)"
proof -
  have ok: "setTrailLength n b = (Inr (), b\<lparr>trailLength := n\<rparr>)"
    using assms by (simp add: setTrailLength_def)
  have "trail (adjustPosition (b\<lparr>trailLength := n\<rparr>)) = drop (length (trail b) - nat n) (trail b)"
    if "n < int (length (trail b))"
  proof -
    have "nat (int (length (trail b)) - n) = length (trail b) - nat n"
      using assms that by linarith
    then show ?thesis using that by (simp add: adjustPosition_trail Let_def)
  qed
  moreover have "int (length (drop (length (trail b) - nat n) (trail b))) = n"
    if "n < int (length (trail b))"
    using assms that by simp
  ultimately show ?thesis using ok by simp
qed

theorem setTrailLength_frame_witness:
  "trail (snd (setTrailLength 1 long_trail_body)) = [(Fin 0, Fin 0), (Fin 1, Fin 0), (Fin 2, Fin 0)]
   \<and> trailLength (snd (setTrailLength 1 long_trail_body)) = 1
   \<and> trail (adjustPosition (snd (setTrailLength 1 long_trail_body))) = [(Fin 2, Fin 0)]"
proof -
  have lo: "(0::int) \<le> 1" and hi: "(1::int) \<le> 100000"
    by simp_all
  note frame = setTrailLength_frame [OF lo hi, of long_trail_body]
  have shorter: "(1::int) < int (length (trail long_trail_body))"
    by (simp add: long_trail_body_def)
  have "trail (snd (setTrailLength 1 long_trail_body)) = trail long_trail_body"
    using frame by blast
  moreover have "snd (setTrailLength 1 long_trail_body) = long_trail_body\<lparr>trailLength := 1\<rparr>"
    using frame by simp
  moreover have "trail (adjustPosition (snd (setTrailLength 1 long_trail_body)))
      = drop (length (trail long_trail_body) - nat 1) (trail long_trail_body)"
    using frame shorter by blast
  ultimately show ?thesis
    by (simp add: long_trail_body_def)
qed

section \<open>The displacement step\<close>

text \<open>
  Claim C3, as amended. \<open>adjustPosition\<close> appends the position it starts from when the
  capacity is positive and the trail is at most as long as the capacity (a full trail
  still takes the new entry); then a trail longer than the capacity loses entries at its
  head, down to the capacity; then the momentum is added to the position. With a
  capacity that is not negative, a trail that was at least as long as the capacity ends
  with exactly that many entries, and an appended entry is the last entry of the trail
  after the call.
\<close>

theorem adjustPosition_steps:
  "adjustPosition b =
     (let pre = exportCoordinates (position b);
          appended =
            (if 0 < trailLength b \<and> int (length (trail b)) \<le> trailLength b
             then trail b @ [pre] else trail b);
          trimmed =
            (if int (length appended) > trailLength b
             then drop (nat (int (length appended) - trailLength b)) appended
             else appended)
      in b\<lparr>trail := trimmed,
           position := \<lparr>pos_x = pos_x (position b) + vec_x (momentum b),
                        pos_y = pos_y (position b) + vec_y (momentum b)\<rparr>\<rparr>)
   \<and> (0 \<le> trailLength b \<longrightarrow> int (length (trail b)) \<ge> trailLength b \<longrightarrow>
        int (length (trail (adjustPosition b))) = trailLength b)
   \<and> (0 < trailLength b \<longrightarrow> int (length (trail b)) \<le> trailLength b \<longrightarrow>
        trail (adjustPosition b) \<noteq> []
        \<and> last (trail (adjustPosition b)) = exportCoordinates (position b))"
proof -
  have c: "(trailLength b \<noteq> 0 \<and> int (length (trail b)) \<le> trailLength b)
           = (0 < trailLength b \<and> int (length (trail b)) \<le> trailLength b)"
    by auto
  have 1: "adjustPosition b =
     (let pre = exportCoordinates (position b);
          appended =
            (if 0 < trailLength b \<and> int (length (trail b)) \<le> trailLength b
             then trail b @ [pre] else trail b);
          trimmed =
            (if int (length appended) > trailLength b
             then drop (nat (int (length appended) - trailLength b)) appended
             else appended)
      in b\<lparr>trail := trimmed,
           position := \<lparr>pos_x = pos_x (position b) + vec_x (momentum b),
                        pos_y = pos_y (position b) + vec_y (momentum b)\<rparr>\<rparr>)"
    unfolding adjustPosition_def Let_def snd_array_splice_head addVector_def
    using c by simp
  have 2: "int (length (trail (adjustPosition b))) = trailLength b"
    if "0 \<le> trailLength b" "int (length (trail b)) \<ge> trailLength b"
    using that by (auto simp add: adjustPosition_trail Let_def)
  have 3: "trail (adjustPosition b) \<noteq> []
        \<and> last (trail (adjustPosition b)) = exportCoordinates (position b)"
    if "0 < trailLength b" "int (length (trail b)) \<le> trailLength b"
    using that by (auto simp add: adjustPosition_trail Let_def)
  from 1 2 3 show ?thesis by blast
qed

theorem adjustPosition_steps_witness:
  "int (length (trail (adjustPosition full_trail_body))) = 1
   \<and> last (trail (adjustPosition full_trail_body)) = (Fin 1, Fin 1)
   \<and> position (adjustPosition full_trail_body) = \<lparr>pos_x = Fin 3, pos_y = Fin 4\<rparr>"
proof -
  have cap: "0 \<le> trailLength full_trail_body" "0 < trailLength full_trail_body"
    and len: "trailLength full_trail_body \<le> int (length (trail full_trail_body))"
      "int (length (trail full_trail_body)) \<le> trailLength full_trail_body"
    by (simp_all add: full_trail_body_def)
  note steps = adjustPosition_steps [of full_trail_body]
  have "int (length (trail (adjustPosition full_trail_body))) = trailLength full_trail_body"
    using steps cap len by blast
  moreover have "last (trail (adjustPosition full_trail_body))
      = exportCoordinates (position full_trail_body)"
    using steps cap len by blast
  moreover have "position (adjustPosition full_trail_body)
      = \<lparr>pos_x = pos_x (position full_trail_body) + vec_x (momentum full_trail_body),
         pos_y = pos_y (position full_trail_body) + vec_y (momentum full_trail_body)\<rparr>"
    using steps by (simp add: Let_def)
  ultimately show ?thesis
    by (simp add: full_trail_body_def exportCoordinates_def)
qed

text \<open>
  With capacity 1 and one recorded position, the source replaces the recorded position by
  the current one, where the specification's steps leave the trail as it was.
\<close>

theorem adjustPosition_counterexample:
  "trail (adjustPosition full_trail_body) = [(Fin 1, Fin 1)]
   \<and> trail (advance_spec full_trail_body) = [(Fin 0, Fin 0)]"
  by (simp add: adjustPosition_trail advance_spec_def full_trail_body_def exportCoordinates_def)

section \<open>The simulation step\<close>

text \<open>
  Claim C1. One \<open>updateSimulation\<close> completes the accumulation for every body from the
  positions and masses of the array before the step, moving no body, and displaces
  afterwards. For the
  two bodies of mass 1 at rest at \<open>(0, 0)\<close> and \<open>(10, 0)\<close> the coefficient of the pair is
  \<open>0.005\<close>, and after the step the momenta are \<open>(0.05, 0)\<close> and \<open>(-0.05, 0)\<close> and the
  positions \<open>(0.05, 0)\<close> and \<open>(9.95, 0)\<close>.
\<close>

theorem phase_barrier:
  "bodies (updateVectors c) = map (accumulate (bodies c)) [0..<length (bodies c)]
   \<and> map position (bodies (updateVectors c)) = map position (bodies c)
   \<and> bodies (updateSimulation c)
       = map (\<lambda>i. adjustPosition (accumulate (bodies c) i)) [0..<length (bodies c)]
   \<and> gravCoeff (resting 0 0 a) (resting 10 0 b) = Fin 0.005
   \<and> gravCoeff (resting 10 0 b) (resting 0 0 a) = Fin 0.005
   \<and> map momentum (bodies (updateSimulation \<lparr>bodies = [resting 0 0 a, resting 10 0 b]\<rparr>))
       = [\<lparr>vec_x = Fin 0.05, vec_y = Fin 0\<rparr>, \<lparr>vec_x = Fin (- 0.05), vec_y = Fin 0\<rparr>]
   \<and> map position (bodies (updateSimulation \<lparr>bodies = [resting 0 0 a, resting 10 0 b]\<rparr>))
       = [\<lparr>pos_x = Fin 0.05, pos_y = Fin 0\<rparr>, \<lparr>pos_x = Fin 9.95, pos_y = Fin 0\<rparr>]"
proof -
  let ?A = "resting 0 0 a" and ?B = "resting 10 0 b"
  have A: "mass ?A = Fin 1" "position ?A = \<lparr>pos_x = Fin 0, pos_y = Fin 0\<rparr>"
      "momentum ?A = \<lparr>vec_x = Fin 0, vec_y = Fin 0\<rparr>"
    and B: "mass ?B = Fin 1" "position ?B = \<lparr>pos_x = Fin 10, pos_y = Fin 0\<rparr>"
      "momentum ?B = \<lparr>vec_x = Fin 0, vec_y = Fin 0\<rparr>"
    by (simp_all add: resting_def placed_def)
  have cAB: "gravCoeff ?A ?B = Fin 0.005"
    by (simp add: gravCoeff_def distance_def difference_def minus_number_def Let_def A B)
  have cBA: "gravCoeff ?B ?A = Fin 0.005"
    by (simp add: gravCoeff_def distance_def difference_def minus_number_def Let_def A B)
  have mA: "momentum (adjustVector ?A ?B) = \<lparr>vec_x = Fin 0.05, vec_y = Fin 0\<rparr>"
    by (simp add: adjustVector_def cAB addCoords_def difference_def minus_number_def Let_def A B)
  have mB: "momentum (adjustVector ?B ?A) = \<lparr>vec_x = Fin (- 0.05), vec_y = Fin 0\<rparr>"
    by (simp add: adjustVector_def cBA addCoords_def difference_def minus_number_def Let_def A B)
  have acc: "accumulate [?A, ?B] 0 = adjustVector ?A ?B"
      "accumulate [?A, ?B] (Suc 0) = adjustVector ?B ?A"
    by (simp_all add: accumulate_def)
  have step: "bodies (updateSimulation \<lparr>bodies = [?A, ?B]\<rparr>)
      = [adjustPosition (adjustVector ?A ?B), adjustPosition (adjustVector ?B ?A)]"
    by (simp add: bodies_updateSimulation acc)
  have momenta: "map momentum (bodies (updateSimulation \<lparr>bodies = [?A, ?B]\<rparr>))
      = [\<lparr>vec_x = Fin 0.05, vec_y = Fin 0\<rparr>, \<lparr>vec_x = Fin (- 0.05), vec_y = Fin 0\<rparr>]"
    by (simp add: step adjustPosition_fields mA mB)
  have positions: "map position (bodies (updateSimulation \<lparr>bodies = [?A, ?B]\<rparr>))
      = [\<lparr>pos_x = Fin 0.05, pos_y = Fin 0\<rparr>, \<lparr>pos_x = Fin 9.95, pos_y = Fin 0\<rparr>]"
    by (simp add: step adjustPosition_fields adjustVector_fields mA mB addVector_def A B)
  show ?thesis
    using bodies_updateVectors [of c] positions_updateVectors [of c]
      bodies_updateSimulation [of c] cAB cBA momenta positions
    by blast
qed

text \<open>
  Claim C4. A body whose trail is at most as long as its capacity keeps that bound after
  any number of steps, also after more steps than the capacity; the steps change neither
  the capacity nor the number of bodies.
\<close>

theorem trail_bound:
  assumes "i < length (bodies c)" and "trail_within_capacity (bodies c ! i)"
  shows "length (bodies (runSteps n c)) = length (bodies c)
    \<and> trailLength (bodies (runSteps n c) ! i) = trailLength (bodies c ! i)
    \<and> int (length (trail (bodies (runSteps n c) ! i))) \<le> trailLength (bodies c ! i)"
proof -
  have "trail_within_capacity (bodies (runSteps n c) ! i)"
  proof (induction n)
    case 0
    show ?case using assms by simp
  next
    case (Suc n)
    then show ?case
      unfolding nth_runSteps_Suc
      using assms by (simp add: updateSimulation_within_capacity length_runSteps)
  qed
  then show ?thesis
    using assms by (simp add: trail_within_capacity_def length_runSteps trailLength_runSteps)
qed

text \<open>Five steps on a body of capacity 1.\<close>

theorem trail_bound_witness:
  "0 < length (bodies two_bodies) \<and> trail_within_capacity (bodies two_bodies ! 0)
   \<and> trailLength (bodies two_bodies ! 0) = 1
   \<and> int (length (trail (bodies (runSteps 5 two_bodies) ! 0))) \<le> 1"
proof -
  have index: "0 < length (bodies two_bodies)"
    and bound: "trail_within_capacity (bodies two_bodies ! 0)"
    and capacity: "trailLength (bodies two_bodies ! 0) = 1"
    by (simp_all add: two_bodies_def full_trail_body_def trail_within_capacity_def)
  from trail_bound [OF index bound, of 5] index bound capacity show ?thesis
    by simp
qed

text \<open>
  Claim C9. Two collections whose bodies agree in mass, position, momentum, trail
  capacity and trail, whatever their colour indices and trail thicknesses, agree in
  these fields after any number of steps.
\<close>

theorem cosmetics_do_not_influence_physics:
  "map physics (bodies c) = map physics (bodies c') \<Longrightarrow>
   map physics (bodies (runSteps n c)) = map physics (bodies (runSteps n c'))"
proof (induction n arbitrary: c c')
  case 0
  then show ?case by simp
next
  case (Suc n)
  have "map physics (bodies (updateSimulation c)) = map physics (bodies (updateSimulation c'))"
    using Suc.prems by (rule updateSimulation_physics)
  then have "map physics (bodies (runSteps n (updateSimulation c)))
      = map physics (bodies (runSteps n (updateSimulation c')))"
    by (rule Suc.IH)
  then show ?case
    by simp
qed

text \<open>Three steps on the sample collection and on its recoloured copy.\<close>

theorem cosmetics_do_not_influence_physics_witness:
  "map physics (bodies two_bodies) = map physics (bodies two_bodies_recoloured)
   \<and> map colorIndex (bodies two_bodies) = [0, 4]
   \<and> map colorIndex (bodies two_bodies_recoloured) = [9, 9]
   \<and> map physics (bodies (runSteps 3 two_bodies))
       = map physics (bodies (runSteps 3 two_bodies_recoloured))"
proof -
  have same: "map physics (bodies two_bodies) = map physics (bodies two_bodies_recoloured)"
    by (simp add: two_bodies_recoloured_def two_bodies_def physics_def)
  have colours: "map colorIndex (bodies two_bodies) = [0, 4]"
      "map colorIndex (bodies two_bodies_recoloured) = [9, 9]"
    by (simp_all add: two_bodies_recoloured_def two_bodies_def full_trail_body_def
        long_trail_body_def)
  from cosmetics_do_not_influence_physics [OF same, of 3] same colours show ?thesis
    by simp
qed

end
